theory Spec2Isabelle
  imports Main "HOL-Library.Word"
begin

unbundle bit_operations_syntax

section \<open>The bridged internet socket of services/internet/protocols/socket.cpp\<close>

text \<open>
  The development embeds \<^verbatim>\<open>inet_socket\<close>: its fields as a record, each member function
  as a function from the session to the updated session, and everything a member function
  does to the outside (completing a notification, handing work to the loop thread, calling
  libuv itself, writing guest memory) as an entry appended to a trace. A null pointer that
  the source dereferences is a value of type \<open>fault\<close>, returned on the left of a sum.
\<close>

subsection \<open>Constants of headers outside the file\<close>

type_synonym byte = "8 word"

text \<open>
  The identifiers of \<^verbatim>\<open>inet.h\<close> and \<^verbatim>\<open>socket.h\<close>, the address families of the host and
  libuv's error numbers are not fixed by \<^verbatim>\<open>socket.cpp\<close>; libuv's error numbers and the
  host's address families differ between platforms. They are a parameter of every function
  that compares against them. \<open>little_endian\<close> is the byte order of the host, which
  decides what \<^verbatim>\<open>htons\<close> does.
\<close>

record constants =
  INET_ADDRESS_FAMILY :: "32 word"
  INET6_ADDRESS_FAMILY :: "32 word"
  INVALID_FAMILY_ID :: "32 word"
  INET_UDP_PROTOCOL_ID :: "32 word"
  INET_TCP_PROTOCOL_ID :: "32 word"
  SOCKET_FLAG_DONT_WAIT_FULL :: "32 word"
  AF_INET :: "16 word"
  AF_INET6 :: "16 word"
  little_endian :: bool
  UV_EOF :: int
  UV_EACCES :: int
  UV_EADDRINUSE :: int
  UV_EADDRNOTAVAIL :: int
  UV_EAFNOSUPPORT :: int
  UV_ECONNREFUSED :: int
  UV_ENOTSUP :: int
  UV_ETIMEDOUT :: int

text \<open>
  One assignment of the constants, used wherever a statement is evaluated on a concrete
  input: the family and protocol numbers of the Symbian internet headers (\<open>0x0800\<close>,
  \<open>0x0806\<close>, 6 for TCP, 17 for UDP), sample values for the invalid family and for the
  flag bit, and the numbers of a little-endian Linux host (its address families, libuv's
  negated \<^verbatim>\<open>errno\<close> values, \<open>-4095\<close> for the end of file). The general lemmas and
  theorems hold for every assignment.
\<close>

definition linux_constants :: constants where
  "linux_constants = \<lparr>
     INET_ADDRESS_FAMILY = 0x0800, INET6_ADDRESS_FAMILY = 0x0806,
     INVALID_FAMILY_ID = 0xFFFFFFFF,
     INET_UDP_PROTOCOL_ID = 0x11, INET_TCP_PROTOCOL_ID = 0x06,
     SOCKET_FLAG_DONT_WAIT_FULL = 0x1000,
     AF_INET = 2, AF_INET6 = 10, little_endian = True,
     UV_EOF = - 4095, UV_EACCES = - 13, UV_EADDRINUSE = - 98, UV_EADDRNOTAVAIL = - 99,
     UV_EAFNOSUPPORT = - 97, UV_ECONNREFUSED = - 111, UV_ENOTSUP = - 95,
     UV_ETIMEDOUT = - 110 \<rparr>"

text \<open>
  A \<^verbatim>\<open>switch\<close> does not compile with two equal case labels, and libuv's error numbers
  are negative: the case labels of \<^verbatim>\<open>handle_connect_done_error_code\<close> are pairwise
  different and none is zero.
\<close>

definition uv_labels_distinct :: "constants \<Rightarrow> bool" where
  "uv_labels_distinct k = distinct [0, UV_EACCES k, UV_EADDRINUSE k, UV_EADDRNOTAVAIL k,
     UV_EAFNOSUPPORT k, UV_ECONNREFUSED k, UV_ENOTSUP k, UV_ETIMEDOUT k]"

subsection \<open>Guest result codes\<close>

text \<open>
  The \<^verbatim>\<open>epoc::error_*\<close> constants that \<^verbatim>\<open>socket.cpp\<close> names (declared in
  \<^verbatim>\<open>utils/err.h\<close>), one constructor for each.
\<close>

datatype guest_error =
    error_none
  | error_not_ready
  | error_in_use
  | error_argument
  | error_not_supported
  | error_permission_denied
  | error_server_busy
  | error_timed_out
  | error_cancel
  | error_eof
  | error_general

text \<open>
  Modelled from the spec: the taxonomy of guest-visible result codes of its section 7,
  which \<^verbatim>\<open>socket.cpp\<close> does not declare. It lists \<open>InUse\<close> (an operation of that kind
  already pending, or the socket already open) and \<open>AddressInUse\<close> as two codes.
\<close>

datatype result_code =
    RC_None
  | RC_NotReady
  | RC_InUse
  | RC_Argument
  | RC_NotSupported
  | RC_PermissionDenied
  | RC_AddressInUse
  | RC_ServerBusy
  | RC_TimedOut
  | RC_Cancel
  | RC_Eof
  | RC_General

text \<open>The taxonomy entry that each constant of the source stands for, name by name.\<close>

fun taxonomy :: "guest_error \<Rightarrow> result_code" where
  "taxonomy error_none = RC_None"
| "taxonomy error_not_ready = RC_NotReady"
| "taxonomy error_in_use = RC_InUse"
| "taxonomy error_argument = RC_Argument"
| "taxonomy error_not_supported = RC_NotSupported"
| "taxonomy error_permission_denied = RC_PermissionDenied"
| "taxonomy error_server_busy = RC_ServerBusy"
| "taxonomy error_timed_out = RC_TimedOut"
| "taxonomy error_cancel = RC_Cancel"
| "taxonomy error_eof = RC_Eof"
| "taxonomy error_general = RC_General"

subsection \<open>Addresses\<close>

text \<open>
  A guest address (\<^verbatim>\<open>epoc::socket::saddress\<close>, read as \<^verbatim>\<open>sinet6_address\<close> for the
  IPv6 family): family, port, the raw address bytes, and for IPv6 the flow label and the
  scope that \<^verbatim>\<open>get_flow()\<close> and \<^verbatim>\<open>get_scope()\<close> return.
\<close>

record saddress =
  family :: "32 word"
  port :: "32 word"
  user_data :: "byte list"
  flow :: "32 word"
  scope :: "32 word"

text \<open>
  A native address: the fields of \<^verbatim>\<open>sockaddr_in\<close> and \<^verbatim>\<open>sockaddr_in6\<close> behind one
  \<^verbatim>\<open>sockaddr*\<close>. The port is in network byte order.
\<close>

record sockaddr =
  sa_family :: "16 word"
  sin_port :: "16 word"
  sin_addr :: "byte list"
  sin6_flowinfo :: "32 word"
  sin6_scope_id :: "32 word"

definition htons :: "constants \<Rightarrow> 16 word \<Rightarrow> 16 word" where
  "htons k x = (if little_endian k then push_bit 8 x OR drop_bit 8 x else x)"

text \<open>The macro \<^verbatim>\<open>GUEST_TO_BSD_ADDR\<close>.\<close>

definition GUEST_TO_BSD_ADDR :: "constants \<Rightarrow> saddress \<Rightarrow> sockaddr" where
  "GUEST_TO_BSD_ADDR k addr =
     (if family addr = INET_ADDRESS_FAMILY k then
        \<lparr> sa_family = AF_INET k, sin_port = htons k (ucast (port addr)),
          sin_addr = take 4 (user_data addr), sin6_flowinfo = 0, sin6_scope_id = 0 \<rparr>
      else
        \<lparr> sa_family = AF_INET6 k, sin_port = htons k (ucast (port addr)),
          sin_addr = take 16 (user_data addr), sin6_flowinfo = flow addr,
          sin6_scope_id = scope addr \<rparr>)"

text \<open>
  \<^verbatim>\<open>is_same_address\<close>. The 16-bit \<^verbatim>\<open>sin_port\<close> is compared with the 32-bit
  \<^verbatim>\<open>port_\<close> as it is, after the integer promotion of C.
\<close>

definition is_same_address :: "constants \<Rightarrow> saddress \<Rightarrow> sockaddr \<Rightarrow> bool" where
  "is_same_address k addr_requested addr_to_check =
     (if family addr_requested = INET_ADDRESS_FAMILY k then
        (if sa_family addr_to_check \<noteq> AF_INET k then False
         else if ucast (sin_port addr_to_check) \<noteq> port addr_requested
                 \<or> take 4 (sin_addr addr_to_check) \<noteq> take 4 (user_data addr_requested)
              then False
         else True)
      else
        (if sa_family addr_to_check \<noteq> AF_INET6 k then False
         else if ucast (sin_port addr_to_check) \<noteq> port addr_requested
                 \<or> sin6_scope_id addr_to_check \<noteq> scope addr_requested
                 \<or> sin6_flowinfo addr_to_check \<noteq> flow addr_requested
                 \<or> take 16 (sin_addr addr_to_check) \<noteq> take 16 (user_data addr_requested)
              then False
         else True))"

subsection \<open>Completion notifications and the trace\<close>

text \<open>
  Modelled from the spec: \<^verbatim>\<open>epoc::notify_info\<close>, declared outside the file. The spec
  makes it a single-shot slot bound to a requester: \<^verbatim>\<open>empty()\<close> tells whether a
  requester is still waiting, \<^verbatim>\<open>complete(code)\<close> hands the code to the requester and
  clears the slot, and on an empty slot it does nothing. A slot is \<open>None\<close> when empty and
  \<open>Some r\<close> while request \<open>r\<close> is outstanding.
\<close>

type_synonym notify_info = "nat option"

text \<open>The libuv calls of the file, with the arguments that the claims speak of.\<close>

datatype uv_call =
    Uv_tcp_init
  | Uv_udp_init
  | Uv_close
  | Uv_udp_connect sockaddr
  | Uv_tcp_connect sockaddr
  | Uv_udp_bind sockaddr
  | Uv_tcp_bind sockaddr
  | Uv_udp_send nat "32 word" "sockaddr option"
  | Uv_write nat "32 word"
  | Uv_udp_recv_start
  | Uv_read_start
  | Uv_udp_recv_stop
  | Uv_read_stop

datatype event =
    Completed nat guest_error \<comment> \<open>\<^verbatim>\<open>complete(code)\<close> reached the requester of a request\<close>
  | Posted uv_call \<comment> \<open>\<^verbatim>\<open>uv_async_send\<close>: the call is handed to the loop thread\<close>
  | Native uv_call \<comment> \<open>the running thread calls libuv itself\<close>
  | Lock \<comment> \<open>\<^verbatim>\<open>kern->lock()\<close>\<close>
  | Unlock \<comment> \<open>\<^verbatim>\<open>kern->unlock()\<close>\<close>
  | Callback nat int \<comment> \<open>\<^verbatim>\<open>receive_done_cb_(n)\<close>\<close>
  | Write_u32 nat "32 word" \<comment> \<open>\<^verbatim>\<open>*p = v\<close> through a guest pointer\<close>
  | Memcpy nat "byte list" \<comment> \<open>\<^verbatim>\<open>memcpy(dest, src, n)\<close> into guest memory\<close>

definition notify_complete :: "notify_info \<Rightarrow> guest_error \<Rightarrow> event list" where
  "notify_complete info code = (case info of None \<Rightarrow> [] | Some r \<Rightarrow> [Completed r code])"

datatype fault =
    null_opaque_handle \<comment> \<open>\<^verbatim>\<open>opaque_handle_\<close> dereferenced while null\<close>
  | null_opaque_connect \<comment> \<open>\<^verbatim>\<open>opaque_connect_\<close> dereferenced while null\<close>
  | null_kern \<comment> \<open>\<^verbatim>\<open>kern->lock()\<close> with \<^verbatim>\<open>kern == nullptr\<close>\<close>
  | null_recv_addr \<comment> \<open>the sender address dereferenced while null\<close>
  | accumulator_overflow \<comment> \<open>a push beyond the capacity of the ring buffer\<close>

datatype native_handle = uv_tcp_t | uv_udp_t

datatype socket_type =
    socket_type_datagram
  | socket_type_stream
  | socket_type_other nat

text \<open>
  A pointer to host memory that the session owns: null, pointing to a live block, or still
  holding the address of a block that was freed. A snapshot of the interfaces is the list
  of their names.
\<close>

datatype 'a pointer = Null | Live 'a | Freed

subsection \<open>The session\<close>

text \<open>
  The fields keep their names without the trailing underscore of the source, which a name
  of a term cannot end with. Pointers to guest memory are addresses (\<open>nat\<close>), nullable ones are options. The three
  request records are \<open>True\<close> once allocated. \<open>loop_thread\<close> is the looper of the owning
  \<^verbatim>\<open>inet_bridged_protocol\<close> (\<^verbatim>\<open>papa_\<close>). \<open>trace\<close> is not a field of the source: it
  collects what the member functions did to the outside, in order.
\<close>

record inet_socket =
  opaque_handle :: "native_handle option"
  protocol :: "32 word"
  opaque_connect :: bool
  opaque_send_info :: bool
  opaque_write_info :: bool
  connect_done_info :: notify_info
  send_done_info :: notify_info
  recv_done_info :: notify_info
  bytes_written :: "nat option"
  bytes_read :: "nat option"
  read_dest :: nat
  recv_size :: nat
  take_available_only :: bool
  receive_done_cb :: "nat option"
  listen_addr :: saddress
  stream_data_buffer :: "byte list option"
  temp_buffer :: "byte list"
  opaque_interface_info :: "string list pointer"
  opaque_interface_info_current :: "string list pointer"
  loop_thread :: bool
  trace :: "event list"

definition emit :: "event list \<Rightarrow> inet_socket \<Rightarrow> inet_socket" where
  "emit es s = s\<lparr>trace := trace s @ es\<rparr>"

subsection \<open>Connect completion\<close>

text \<open>\<^verbatim>\<open>inet_socket::handle_connect_done_error_code\<close>, the cases in the order of the switch.\<close>

definition handle_connect_done_error_code :: "constants \<Rightarrow> int \<Rightarrow> inet_socket \<Rightarrow> inet_socket" where
  "handle_connect_done_error_code k error_code s =
     (if connect_done_info s = None then s
      else if error_code = 0 then
        emit (notify_complete (connect_done_info s) error_none) (s\<lparr>connect_done_info := None\<rparr>)
      else
        (let guest_error_code =
           (if error_code = UV_EACCES k then error_permission_denied
            else if error_code = UV_EADDRINUSE k then error_in_use
            else if error_code = UV_EADDRNOTAVAIL k then error_argument
            else if error_code = UV_EAFNOSUPPORT k then error_not_supported
            else if error_code = UV_ECONNREFUSED k then error_server_busy
            else if error_code = UV_ENOTSUP k then error_not_supported
            else if error_code = UV_ETIMEDOUT k then error_timed_out
            else error_general)
         in emit (notify_complete (connect_done_info s) guest_error_code)
              (s\<lparr>connect_done_info := None\<rparr>)))"

definition complete_connect_done_info :: "constants \<Rightarrow> int \<Rightarrow> inet_socket \<Rightarrow> inet_socket" where
  "complete_connect_done_info k err s =
     (if connect_done_info s = None then s else handle_connect_done_error_code k err s)"

text \<open>Running a member function on the session that the previous one left, unless it faulted.\<close>

definition and_then :: "fault + 'a \<Rightarrow> ('a \<Rightarrow> fault + 'b) \<Rightarrow> fault + 'b" where
  "and_then r f = (case r of Inl e \<Rightarrow> Inl e | Inr s \<Rightarrow> f s)"

subsection \<open>Open\<close>

text \<open>
  \<^verbatim>\<open>inet_socket::open\<close>, named \<open>open_socket\<close> because \<open>open\<close> is a keyword of
  Isabelle. \<open>init_result\<close> is what \<^verbatim>\<open>uv_tcp_init\<close> or \<^verbatim>\<open>uv_udp_init\<close>
  returns on the loop thread; the caller waits for it on \<^verbatim>\<open>open_event_\<close>. The handle is
  allocated and stored before the initialisation is posted. The translated family is
  computed and never used.
\<close>

definition open_socket ::
  "constants \<Rightarrow> 32 word \<Rightarrow> 32 word \<Rightarrow> socket_type \<Rightarrow> int \<Rightarrow> inet_socket \<Rightarrow> bool \<times> inet_socket" where
  "open_socket k family_id protocol_id sock_type init_result s =
     (if (case sock_type of
            socket_type_datagram \<Rightarrow> protocol_id \<noteq> INET_UDP_PROTOCOL_ID k
          | socket_type_stream \<Rightarrow> protocol_id \<noteq> INET_TCP_PROTOCOL_ID k
          | socket_type_other _ \<Rightarrow> True)
      then (False, s)
      else if opaque_handle s \<noteq> None then (False, s)
      else
        (let s1 =
           (if protocol_id = INET_TCP_PROTOCOL_ID k
            then emit [Posted Uv_tcp_init] (s\<lparr>opaque_handle := Some uv_tcp_t\<rparr>)
            else emit [Posted Uv_udp_init] (s\<lparr>opaque_handle := Some uv_udp_t\<rparr>));
           s2 = s1\<lparr>loop_thread := True\<rparr>
         in if init_result < 0 then (False, s2)
            else (True, s2\<lparr>protocol := protocol_id\<rparr>)))"

subsection \<open>Connect and bind\<close>

text \<open>\<^verbatim>\<open>inet_socket::connect\<close>.\<close>

definition connect :: "constants \<Rightarrow> saddress \<Rightarrow> notify_info \<Rightarrow> inet_socket \<Rightarrow> inet_socket" where
  "connect k addr info s =
     (if opaque_handle s = None then emit (notify_complete info error_not_ready) s
      else if connect_done_info s \<noteq> None then emit (notify_complete info error_in_use) s
      else
        (let ip_addr = GUEST_TO_BSD_ADDR k addr;
             s1 = s\<lparr>connect_done_info := info\<rparr>
         in if protocol s = INET_UDP_PROTOCOL_ID k
            then emit [Posted (Uv_udp_connect ip_addr)] s1
            else emit [Posted (Uv_tcp_connect ip_addr)] (s1\<lparr>opaque_connect := True\<rparr>)))"

text \<open>
  \<^verbatim>\<open>inet_socket::bind\<close>. The calling thread calls \<^verbatim>\<open>uv_udp_bind\<close> or \<^verbatim>\<open>uv_tcp_bind\<close>
  itself; \<open>bind_result\<close> is what the call returns, which the source drops.
\<close>

definition bind :: "constants \<Rightarrow> saddress \<Rightarrow> notify_info \<Rightarrow> int \<Rightarrow> inet_socket \<Rightarrow> inet_socket" where
  "bind k addr info bind_result s =
     (if opaque_handle s = None then emit (notify_complete info error_not_ready) s
      else
        (let ip_addr = GUEST_TO_BSD_ADDR k addr;
             s1 = (if protocol s = INET_UDP_PROTOCOL_ID k
                   then emit [Native (Uv_udp_bind ip_addr)] s
                   else emit [Native (Uv_tcp_bind ip_addr)] s)
         in emit (notify_complete info error_none) s1))"

subsection \<open>Send\<close>

text \<open>\<^verbatim>\<open>inet_socket::complete_send_done_info\<close>.\<close>

definition complete_send_done_info :: "int \<Rightarrow> inet_socket \<Rightarrow> inet_socket" where
  "complete_send_done_info err s =
     (if send_done_info s = None then s
      else
        (let code = (if err \<noteq> 0 then error_general else error_none)
         in (emit ([Lock] @ notify_complete (send_done_info s) code @ [Unlock]) s)
              \<lparr>send_done_info := None, bytes_written := None\<rparr>))"

text \<open>
  \<^verbatim>\<open>inet_socket::send\<close>. \<open>data\<close> is the address of the guest buffer, \<open>sent_size\<close> the
  nullable pointer to the written count. The stream branch reads \<^verbatim>\<open>connect->handle\<close>
  through \<^verbatim>\<open>opaque_connect_\<close> without a test.
\<close>

definition send ::
  "constants \<Rightarrow> nat \<Rightarrow> 32 word \<Rightarrow> nat option \<Rightarrow> saddress option \<Rightarrow> 32 word \<Rightarrow> notify_info
     \<Rightarrow> inet_socket \<Rightarrow> fault + inet_socket" where
  "send k data data_size sent_size addr_ptr flags complete_info s =
     (if send_done_info s \<noteq> None then Inr (emit (notify_complete complete_info error_in_use) s)
      else
        (let ip_addr_ptr = map_option (GUEST_TO_BSD_ADDR k) addr_ptr;
             s1 = s\<lparr>bytes_written := sent_size\<rparr>;
             s2 = (case sent_size of None \<Rightarrow> s1 | Some p \<Rightarrow> emit [Write_u32 p data_size] s1);
             s3 = s2\<lparr>send_done_info := complete_info\<rparr>
         in if protocol s = INET_UDP_PROTOCOL_ID k
            then Inr (emit [Posted (Uv_udp_send data data_size ip_addr_ptr)]
                        (s3\<lparr>opaque_send_info := True\<rparr>))
            else if \<not> opaque_connect s then Inl null_opaque_connect
            else Inr (emit [Posted (Uv_write data data_size)] (s3\<lparr>opaque_write_info := True\<rparr>))))"

subsection \<open>The stream accumulator\<close>

text \<open>
  Modelled from the spec: \<^verbatim>\<open>common::ring_buffer<char, 0x80000>\<close>, declared outside the
  file. The spec makes it a bounded queue of bytes with \<^verbatim>\<open>push(bytes)\<close>, \<^verbatim>\<open>size()\<close> and
  \<^verbatim>\<open>pop(n)\<close> for \<open>n\<close> up to the size; its size never exceeds the capacity. What a push
  beyond the capacity does, the spec does not say: it is \<open>None\<close> here.
\<close>

definition ring_capacity :: nat where
  "ring_capacity = 0x80000"

definition ring_push :: "byte list \<Rightarrow> byte list \<Rightarrow> byte list option" where
  "ring_push rb xs = (if length rb + length xs \<le> ring_capacity then Some (rb @ xs) else None)"

definition ring_pop :: "nat \<Rightarrow> byte list \<Rightarrow> byte list \<times> byte list" where
  "ring_pop n rb = (take n rb, drop n rb)"

subsection \<open>Receive\<close>

text \<open>\<^verbatim>\<open>inet_socket::prepare_buffer_for_recv\<close>: the temporary buffer takes the suggested size.\<close>

definition prepare_buffer_for_recv :: "nat \<Rightarrow> inet_socket \<Rightarrow> inet_socket" where
  "prepare_buffer_for_recv suggested_size s =
     s\<lparr>temp_buffer := take suggested_size (temp_buffer s)
                         @ replicate (suggested_size - length (temp_buffer s)) 0\<rparr>"

text \<open>The store through the nullable \<^verbatim>\<open>bytes_read_\<close>.\<close>

definition write_bytes_read :: "inet_socket \<Rightarrow> 32 word \<Rightarrow> event list" where
  "write_bytes_read s v = (case bytes_read s of None \<Rightarrow> [] | Some p \<Rightarrow> [Write_u32 p v])"

text \<open>
  \<^verbatim>\<open>inet_socket::handle_udp_delivery\<close>. \<open>addr\<close> is the sender address that libuv passes,
  which may be null. The datagram itself is in \<^verbatim>\<open>temp_buffer_\<close>. The kernel pointer is
  fetched only when a receive is pending and is locked whether or not it was fetched.
\<close>

definition handle_udp_delivery ::
  "constants \<Rightarrow> int \<Rightarrow> sockaddr option \<Rightarrow> inet_socket \<Rightarrow> fault + inet_socket" where
  "handle_udp_delivery k bytes_read_arg addr s =
     (let after_filter =
        (let s1 = emit [Native Uv_udp_recv_stop] s;
             error_code =
               (if bytes_read_arg = UV_EOF k then error_eof
                else if bytes_read_arg < 0 then error_general
                else error_none);
             s2 =
               (if bytes_read_arg = UV_EOF k \<or> bytes_read_arg < 0 then s1
                else
                  (let to_write_byte_count = min (nat bytes_read_arg) (recv_size s)
                   in emit ([Memcpy (read_dest s) (take to_write_byte_count (temp_buffer s))]
                            @ write_bytes_read s (of_nat to_write_byte_count)) s1))
         in if recv_done_info s = None then Inl null_kern
            else Inr ((emit ([Lock] @ notify_complete (recv_done_info s) error_code @ [Unlock]) s2)
                        \<lparr>recv_done_info := None\<rparr>))
      in if family (listen_addr s) \<noteq> INVALID_FAMILY_ID k then
           (case addr of
              None \<Rightarrow> Inl null_recv_addr
            | Some recv_addr \<Rightarrow>
                if \<not> is_same_address k (listen_addr s) recv_addr then Inr s else after_filter)
         else after_filter)"

text \<open>
  The tail of \<^verbatim>\<open>inet_socket::handle_tcp_delivery\<close> after the data was placed: stop
  reading through \<^verbatim>\<open>opaque_connect_\<close>, lock the kernel pointer (fetched at the start only
  when a receive is pending), run the side callback, complete, unlock.
\<close>

definition tcp_delivery_finish ::
  "int \<Rightarrow> guest_error \<Rightarrow> inet_socket \<Rightarrow> fault + inet_socket" where
  "tcp_delivery_finish bytes_read_arg error_code s =
     (if \<not> opaque_connect s then Inl null_opaque_connect
      else if recv_done_info s = None then Inl null_kern
      else
        (let cb = (case receive_done_cb s of None \<Rightarrow> [] | Some c \<Rightarrow> [Callback c bytes_read_arg])
         in Inr ((emit ([Native Uv_read_stop, Lock] @ cb
                        @ notify_complete (recv_done_info s) error_code @ [Unlock]) s)
                   \<lparr>receive_done_cb := None, recv_done_info := None\<rparr>)))"

text \<open>
  \<^verbatim>\<open>inet_socket::handle_tcp_delivery\<close>. \<open>buf\<close> is the content of \<^verbatim>\<open>buf->base\<close>.
\<close>

definition handle_tcp_delivery ::
  "constants \<Rightarrow> int \<Rightarrow> byte list \<Rightarrow> inet_socket \<Rightarrow> fault + inet_socket" where
  "handle_tcp_delivery k bytes_read_arg buf s =
     (if bytes_read_arg = UV_EOF k then tcp_delivery_finish bytes_read_arg error_eof s
      else if bytes_read_arg < 0 then tcp_delivery_finish bytes_read_arg error_general s
      else if take_available_only s \<and> recv_size s > nat bytes_read_arg then
        tcp_delivery_finish bytes_read_arg error_none
          (emit ([Memcpy (read_dest s) (take (nat bytes_read_arg) buf)]
                 @ write_bytes_read s (of_int bytes_read_arg)) s)
      else
        (let rb = (case stream_data_buffer s of None \<Rightarrow> [] | Some b \<Rightarrow> b)
         in case ring_push rb (take (nat bytes_read_arg) buf) of
              None \<Rightarrow> Inl accumulator_overflow
            | Some rb1 \<Rightarrow>
                if take_available_only s \<or> recv_size s \<le> length rb1 then
                  (let (got_data, rb2) = ring_pop (min (recv_size s) (length rb1)) rb1
                   in tcp_delivery_finish bytes_read_arg error_none
                        (emit ([Memcpy (read_dest s) got_data]
                               @ write_bytes_read s (of_nat (length got_data)))
                           (s\<lparr>stream_data_buffer := Some rb2\<rparr>)))
                else Inr (s\<lparr>stream_data_buffer := Some rb1\<rparr>)))"

text \<open>
  \<^verbatim>\<open>inet_socket::receive\<close>. \<open>data\<close> is the address of the guest buffer, \<open>recv_size\<close> the
  nullable pointer to the read count, \<open>callback\<close> the side callback if there is one.
\<close>

definition receive ::
  "constants \<Rightarrow> nat \<Rightarrow> 32 word \<Rightarrow> nat option \<Rightarrow> saddress option \<Rightarrow> 32 word \<Rightarrow> notify_info
     \<Rightarrow> nat option \<Rightarrow> inet_socket \<Rightarrow> fault + inet_socket" where
  "receive k data data_size recv_size_ptr addr_ptr flags complete_info callback s =
     (if recv_done_info s \<noteq> None then Inr (emit (notify_complete complete_info error_in_use) s)
      else
        (let s1 = s\<lparr>bytes_read := recv_size_ptr, read_dest := data, recv_size := unat data_size,
                     take_available_only := (flags AND SOCKET_FLAG_DONT_WAIT_FULL k \<noteq> 0),
                     receive_done_cb := callback, recv_done_info := complete_info,
                     listen_addr := (listen_addr s)\<lparr>family := INVALID_FAMILY_ID k\<rparr>\<rparr>;
             arm = (if \<not> opaque_connect s then Inl null_opaque_connect
                    else Inr (emit [Posted Uv_read_start] s1))
         in if protocol s = INET_UDP_PROTOCOL_ID k then
              (let s2 = (case addr_ptr of None \<Rightarrow> s1 | Some a \<Rightarrow> s1\<lparr>listen_addr := a\<rparr>)
               in if opaque_handle s = None then Inl null_opaque_handle
                  else Inr (emit [Posted Uv_udp_recv_start] s2))
            else
              (case stream_data_buffer s of
                 None \<Rightarrow> arm
               | Some rb \<Rightarrow>
                   if rb = [] then arm
                   else if take_available_only s1 \<or> unat data_size \<ge> length rb then
                     (let size_to_pop = min (unat data_size) (length rb);
                          (data_result, rb1) = ring_pop size_to_pop rb;
                          wr = (case recv_size_ptr of None \<Rightarrow> []
                                | Some p \<Rightarrow> [Write_u32 p (of_nat size_to_pop)]);
                          cb = (case callback of None \<Rightarrow> []
                                | Some c \<Rightarrow> [Callback c (int size_to_pop)])
                      in Inr ((emit (wr @ [Memcpy data data_result] @ cb
                                     @ notify_complete complete_info error_none) s1)
                                \<lparr>stream_data_buffer := Some rb1, receive_done_cb := None,
                                  recv_done_info := None\<rparr>))
                   else Inr s1)))"

subsection \<open>Cancel\<close>

text \<open>\<^verbatim>\<open>inet_socket::cancel_receive\<close>, \<^verbatim>\<open>cancel_send\<close> and \<^verbatim>\<open>cancel_connect\<close>.\<close>

definition cancel_receive :: "constants \<Rightarrow> inet_socket \<Rightarrow> inet_socket" where
  "cancel_receive k s =
     (if recv_done_info s = None then s
      else
        (let stop = (if protocol s = INET_UDP_PROTOCOL_ID k then Uv_udp_recv_stop else Uv_read_stop)
         in (emit ([Posted stop] @ notify_complete (recv_done_info s) error_cancel) s)
              \<lparr>receive_done_cb := None, recv_done_info := None\<rparr>))"

definition cancel_send :: "inet_socket \<Rightarrow> inet_socket" where
  "cancel_send s = (emit (notify_complete (send_done_info s) error_cancel) s)\<lparr>send_done_info := None\<rparr>"

definition cancel_connect :: "inet_socket \<Rightarrow> inet_socket" where
  "cancel_connect s =
     (emit (notify_complete (connect_done_info s) error_cancel) s)\<lparr>connect_done_info := None\<rparr>"

subsection \<open>The loop thread and close\<close>

text \<open>
  Work that was posted reaches the loop thread in the order of posting. A round trip (the
  initialisation that \<^verbatim>\<open>open\<close> posts, the close that \<^verbatim>\<open>close_down\<close> posts) gives the
  caller back control only after the loop thread ran it, and so after the loop thread ran
  everything that was posted before it. The work that a round trip finds outstanding is
  what the trace shows posted since the last round trip.
\<close>

fun is_round_trip :: "uv_call \<Rightarrow> bool" where
  "is_round_trip Uv_tcp_init = True"
| "is_round_trip Uv_udp_init = True"
| "is_round_trip Uv_close = True"
| "is_round_trip _ = False"

fun posted_since :: "event list \<Rightarrow> uv_call list \<Rightarrow> uv_call list" where
  "posted_since [] q = q"
| "posted_since (Posted c # es) q = posted_since es (if is_round_trip c then [] else q @ [c])"
| "posted_since (e # es) q = posted_since es q"

definition outstanding_work :: "inet_socket \<Rightarrow> uv_call list" where
  "outstanding_work s = posted_since (trace s) []"

text \<open>
  The bodies of the lambdas that the member functions hand to \<^verbatim>\<open>uv_async_init\<close>, run on
  the loop thread. The one posted by a datagram connect calls \<^verbatim>\<open>uv_udp_connect\<close> and
  passes its result to \<^verbatim>\<open>complete_connect_done_info\<close>; \<open>uv_udp_connect a\<close> is what the
  host returns for the address \<open>a\<close>. The others call libuv and leave the completion to
  a callback.
\<close>

definition run_work :: "constants \<Rightarrow> (sockaddr \<Rightarrow> int) \<Rightarrow> uv_call \<Rightarrow> inet_socket \<Rightarrow> inet_socket" where
  "run_work k uv_udp_connect c s =
     (case c of
        Uv_udp_connect a \<Rightarrow> complete_connect_done_info k (uv_udp_connect a) (emit [Native c] s)
      | _ \<Rightarrow> emit [Native c] s)"

text \<open>
  The callbacks that the member functions register with libuv, each with the arguments
  that libuv passes: the connect callback of \<^verbatim>\<open>uv_tcp_connect\<close>, the send callback of
  \<^verbatim>\<open>uv_udp_send\<close> and \<^verbatim>\<open>uv_write\<close>, the receive callback of \<^verbatim>\<open>uv_udp_recv_start\<close>
  and the read callback of \<^verbatim>\<open>uv_read_start\<close>. For the last two the byte list is what
  \<^verbatim>\<open>temp_buffer_\<close> holds once \<^verbatim>\<open>prepare_buffer_for_recv\<close> has sized it and the host has
  written into it.
\<close>

datatype loop_event =
    Connect_cb int
  | Send_cb int
  | Udp_recv_cb int "sockaddr option" "byte list"
  | Read_cb int "byte list"

definition on_loop_event :: "constants \<Rightarrow> loop_event \<Rightarrow> inet_socket \<Rightarrow> fault + inet_socket" where
  "on_loop_event k e s =
     (case e of
        Connect_cb err \<Rightarrow> Inr (complete_connect_done_info k err s)
      | Send_cb status \<Rightarrow> Inr (complete_send_done_info status s)
      | Udp_recv_cb nread addr_recv buf \<Rightarrow>
          handle_udp_delivery k nread addr_recv (s\<lparr>temp_buffer := buf\<rparr>)
      | Read_cb nread buf \<Rightarrow> handle_tcp_delivery k nread buf (s\<lparr>temp_buffer := buf\<rparr>))"

fun run_callbacks :: "constants \<Rightarrow> loop_event list \<Rightarrow> inet_socket \<Rightarrow> fault + inet_socket" where
  "run_callbacks k [] s = Inr s"
| "run_callbacks k (e # es) s = and_then (on_loop_event k e s) (run_callbacks k es)"

text \<open>
  \<^verbatim>\<open>inet_socket::close_down\<close>, which the destructor runs. With a handle, the close is
  posted and the caller waits on \<^verbatim>\<open>exit_event_\<close>, which the close callback sets. Until
  then the loop thread runs the outstanding work and libuv makes the callbacks
  \<open>callbacks\<close> on the session, in this order (which callbacks and with which arguments is
  the host's doing: the outcome of requests in progress, their cancellation by the close,
  data that arrives). Then the handle is freed. The request records are freed with or
  without a handle (\<open>free_records\<close>, the three tests at the end of the member function).
\<close>

definition free_records :: "inet_socket \<Rightarrow> inet_socket" where
  "free_records s1 =
     (let s2 = (if opaque_connect s1 then s1\<lparr>opaque_connect := False\<rparr> else s1);
          s3 = (if opaque_send_info s2 then s2\<lparr>opaque_send_info := False\<rparr> else s2)
      in (if opaque_write_info s3 then s3\<lparr>opaque_write_info := False\<rparr> else s3))"

definition close_down ::
  "constants \<Rightarrow> (sockaddr \<Rightarrow> int) \<Rightarrow> loop_event list \<Rightarrow> inet_socket \<Rightarrow> fault + inet_socket" where
  "close_down k uv_udp_connect callbacks s =
     and_then
       (if opaque_handle s \<noteq> None then
          and_then
            (run_callbacks k callbacks
               (fold (run_work k uv_udp_connect) (outstanding_work s) (emit [Posted Uv_close] s)))
            (\<lambda>s1. Inr (s1\<lparr>opaque_handle := None, protocol := 0\<rparr>))
        else Inr s)
       (\<lambda>s1. Inr (free_records s1))"

subsection \<open>Interface enumeration\<close>

text \<open>The two results of \<^verbatim>\<open>GetAdaptersAddresses\<close> that the source tells apart (winerror.h).\<close>

definition ERROR_SUCCESS :: "32 word" where
  "ERROR_SUCCESS = 0"

definition ERROR_BUFFER_OVERFLOW :: "32 word" where
  "ERROR_BUFFER_OVERFLOW = 111"

text \<open>
  The \<^verbatim>\<open>do { ... } while (true)\<close> of \<^verbatim>\<open>start_enumerate_network_interfaces\<close> in the
  Windows build. \<open>host i\<close> is the result of the call of \<^verbatim>\<open>GetAdaptersAddresses\<close> number
  \<open>i\<close>. The loop has no bound, so the function is partial: \<open>None\<close> is a loop that never
  exits, \<open>Some b\<close> the value that the member function returns.
\<close>

partial_function (option) get_adapters_retry :: "(nat \<Rightarrow> 32 word) \<Rightarrow> nat \<Rightarrow> bool option" where
  "get_adapters_retry host i =
     (let result = host i
      in if result = ERROR_SUCCESS then Some True
         else if result = ERROR_BUFFER_OVERFLOW then get_adapters_retry host (Suc i)
         else Some False)"

text \<open>
  \<^verbatim>\<open>inet_socket::start_enumerate_network_interfaces\<close>, Windows build. \<open>adapters\<close> is the
  list that a successful query leaves in the buffer. On the failing path the buffer is
  freed and the pointer keeps its address.
\<close>

definition start_enumerate_network_interfaces_win32 ::
  "(nat \<Rightarrow> 32 word) \<Rightarrow> string list \<Rightarrow> inet_socket \<Rightarrow> (bool \<times> inet_socket) option" where
  "start_enumerate_network_interfaces_win32 host adapters s =
     (case get_adapters_retry host 0 of
        None \<Rightarrow> None
      | Some True \<Rightarrow>
          Some (True, s\<lparr>opaque_interface_info := Live adapters,
                        opaque_interface_info_current := Live adapters\<rparr>)
      | Some False \<Rightarrow> Some (False, s\<lparr>opaque_interface_info := Freed\<rparr>))"

text \<open>
  The same member function in the other builds: one call of \<^verbatim>\<open>getifaddrs\<close>, whose result
  is \<open>result\<close> and whose list is \<open>ifaddrs\<close> (a null pointer when the list is empty).
\<close>

definition start_enumerate_network_interfaces_posix ::
  "int \<Rightarrow> string list \<Rightarrow> inet_socket \<Rightarrow> (bool \<times> inet_socket) option" where
  "start_enumerate_network_interfaces_posix result ifaddrs s =
     (let s1 = s\<lparr>opaque_interface_info := Null\<rparr>
      in if result < 0 then Some (False, s1)
         else
           (let p = (if ifaddrs = [] then Null else Live ifaddrs)
            in Some (True, s1\<lparr>opaque_interface_info := p, opaque_interface_info_current := p\<rparr>)))"

subsection \<open>Sessions for evaluation\<close>

text \<open>
  A session that was never opened, and the sessions that a successful open leaves: a
  datagram one, and a stream one whose connect request record exists.
\<close>

definition no_address :: saddress where
  "no_address = \<lparr> family = 0xFFFFFFFF, port = 0, user_data = [], flow = 0, scope = 0 \<rparr>"

definition unopened :: inet_socket where
  "unopened = \<lparr> opaque_handle = None, protocol = 0, opaque_connect = False,
     opaque_send_info = False, opaque_write_info = False, connect_done_info = None,
     send_done_info = None, recv_done_info = None, bytes_written = None, bytes_read = None,
     read_dest = 0, recv_size = 0, take_available_only = False, receive_done_cb = None,
     listen_addr = no_address, stream_data_buffer = None, temp_buffer = [],
     opaque_interface_info = Null, opaque_interface_info_current = Null,
     loop_thread = False, trace = [] \<rparr>"

definition open_udp :: inet_socket where
  "open_udp = unopened\<lparr>opaque_handle := Some uv_udp_t, protocol := 0x11, loop_thread := True\<rparr>"

definition open_tcp :: inet_socket where
  "open_tcp = unopened\<lparr>opaque_handle := Some uv_tcp_t, protocol := 0x06, opaque_connect := True,
     loop_thread := True\<rparr>"

subsection \<open>What a statement says about a session\<close>

text \<open>
  The pending connect of \<open>s\<close> was completed with \<open>code\<close> and nothing else happened:
  \<open>s'\<close> is \<open>s\<close> with the slot cleared and the completion appended to the trace (no
  completion when the slot was empty).
\<close>

definition completes_connect_with :: "inet_socket \<Rightarrow> guest_error \<Rightarrow> inet_socket \<Rightarrow> bool" where
  "completes_connect_with s code s' \<longleftrightarrow>
     s' = s\<lparr>connect_done_info := None,
            trace := trace s @ notify_complete (connect_done_info s) code\<rparr>"

text \<open>
  The supported pairs of socket type and protocol: datagram with UDP, stream with TCP.
\<close>

definition legal_pair :: "constants \<Rightarrow> 32 word \<Rightarrow> socket_type \<Rightarrow> bool" where
  "legal_pair k protocol_id sock_type \<longleftrightarrow>
     (sock_type = socket_type_datagram \<and> protocol_id = INET_UDP_PROTOCOL_ID k)
     \<or> (sock_type = socket_type_stream \<and> protocol_id = INET_TCP_PROTOCOL_ID k)"

text \<open>The guest address 10.0.0.1, port 80.\<close>

definition guest_10_0_0_1_port_80 :: saddress where
  "guest_10_0_0_1_port_80 =
     \<lparr> family = 0x0800, port = 80, user_data = [10, 0, 0, 1], flow = 0, scope = 0 \<rparr>"




text \<open>
  A list of trace entries holds no completion with \<open>error_cancel\<close>; a session \<open>s'\<close>
  continues the trace of \<open>s\<close> by such a list.
\<close>

definition no_cancel :: "event list \<Rightarrow> bool" where
  "no_cancel es \<longleftrightarrow> (\<forall>r. Completed r error_cancel \<notin> set es)"


text \<open>
  The stream session after a 10-byte receive was served from chunks of 3, 4 and 5 bytes:
  two bytes stay in the accumulator and no receive is pending.
\<close>

definition two_left :: inet_socket where
  "two_left = open_tcp\<lparr>bytes_read := Some 600, read_dest := 500, recv_size := 10,
     stream_data_buffer := Some [11, 12],
     trace := [Posted Uv_read_start, Memcpy 500 [1, 2, 3, 4, 5, 6, 7, 8, 9, 10],
               Write_u32 600 10, Native Uv_read_stop, Lock, Completed 4 error_none, Unlock]\<rparr>"

text \<open>
  The datagram session after a receive of up to 100 bytes was started with the filter
  address 10.0.0.1, port 80.
\<close>

definition armed_filtered :: inet_socket where
  "armed_filtered = open_udp\<lparr>bytes_read := Some 600, read_dest := 500, recv_size := 100,
     recv_done_info := Some 3, listen_addr := guest_10_0_0_1_port_80,
     trace := [Posted Uv_udp_recv_start]\<rparr>"

section \<open>Facts shared by the proofs\<close>

lemmas eval_defs = linux_constants_def open_tcp_def open_udp_def unopened_def no_address_def
  emit_def notify_complete_def write_bytes_read_def ring_push_def ring_pop_def ring_capacity_def
  and_then_def Let_def

lemma emit_fields [simp]:
  "send_done_info (emit es s) = send_done_info s"
  "recv_done_info (emit es s) = recv_done_info s"
  "connect_done_info (emit es s) = connect_done_info s"
  "opaque_handle (emit es s) = opaque_handle s"
  "opaque_connect (emit es s) = opaque_connect s"
  "stream_data_buffer (emit es s) = stream_data_buffer s"
  "trace (emit es s) = trace s @ es"
  by (simp_all add: emit_def)

lemma and_then_Inr:
  "and_then r f = Inr y \<longleftrightarrow> (\<exists>x. r = Inr x \<and> f x = Inr y)"
  by (cases r) (simp_all add: and_then_def)



lemma legal_pair_guard:
  "legal_pair k protocol_id sock_type \<Longrightarrow>
   \<not> (case sock_type of
            socket_type_datagram \<Rightarrow> protocol_id \<noteq> INET_UDP_PROTOCOL_ID k
          | socket_type_stream \<Rightarrow> protocol_id \<noteq> INET_TCP_PROTOCOL_ID k
          | socket_type_other _ \<Rightarrow> True)"
  by (auto simp: legal_pair_def)


section \<open>Operations on a session that was never opened (C1)\<close>

lemma connect_unopened:
  "opaque_handle s = None \<Longrightarrow> connect k addr info s = s\<lparr>trace := trace s @ notify_complete info error_not_ready\<rparr>"
  by (simp add: connect_def emit_def)

lemma send_installs_pending:
  assumes "send_done_info s = None"
    and "send k data data_size sent_size addr_ptr flags info s = Inr s'"
  shows "send_done_info s' = info"
proof (cases sent_size)
  case None
  with assms show ?thesis
    by (auto simp: send_def Let_def split: if_splits)
next
  case (Some p)
  with assms show ?thesis
    by (auto simp: send_def Let_def split: if_splits)
qed

lemma receive_installs_or_completes:
  assumes "recv_done_info s = None"
    and "receive k data data_size recv_size_ptr addr_ptr flags (Some r) callback s = Inr s'"
  shows "recv_done_info s' = Some r \<or> last (trace s') = Completed r error_none"
proof (cases "protocol s = INET_UDP_PROTOCOL_ID k")
  case True
  with assms show ?thesis
    by (cases addr_ptr) (auto simp: receive_def Let_def split: if_splits)
next
  case False
  show ?thesis
  proof (cases "stream_data_buffer s")
    case None
    with False assms show ?thesis
      by (auto simp: receive_def Let_def split: if_splits)
  next
    case (Some rb)
    with False assms show ?thesis
      by (auto simp: receive_def Let_def ring_pop_def notify_complete_def split: if_splits)
  qed
qed

text \<open>
  Whatever the fields of a session without a native handle hold, a send or a receive on
  it with no operation of that kind pending does not end as a completion of the supplied
  notification with \<open>error_not_ready\<close> that leaves the session as it was.
\<close>

lemma unopened_send_receive_not_ready:
  assumes "opaque_handle s = None" and "send_done_info s = None" and "recv_done_info s = None"
  shows "send k data data_size sent_size addr_ptr flags (Some r) s
           \<noteq> Inr (s\<lparr>trace := trace s @ [Completed r error_not_ready]\<rparr>)
         \<and> receive k data data_size recv_size_ptr addr_ptr flags (Some r) callback s
           \<noteq> Inr (s\<lparr>trace := trace s @ [Completed r error_not_ready]\<rparr>)"
proof (intro conjI notI)
  assume "send k data data_size sent_size addr_ptr flags (Some r) s
            = Inr (s\<lparr>trace := trace s @ [Completed r error_not_ready]\<rparr>)"
  from send_installs_pending [OF assms(2) this] assms(2) show False by simp
next
  assume "receive k data data_size recv_size_ptr addr_ptr flags (Some r) callback s
            = Inr (s\<lparr>trace := trace s @ [Completed r error_not_ready]\<rparr>)"
  from receive_installs_or_completes [OF assms(3) this] assms(3) show False by simp
qed

text \<open>
  C1: on a session without a native handle, connect, send and receive complete the
  supplied notification with NotReady and schedule no work. The source tests the handle
  in connect only. Evaluated on the session that was never opened: a one-byte send and a
  one-byte receive with notification 7 both go on to the stream branch and read through
  the null \<^verbatim>\<open>opaque_connect_\<close>; neither completes the notification.
\<close>

theorem send_receive_unopened_fault:
  "send linux_constants 100 1 None None 0 (Some 7) unopened = Inl null_opaque_connect
   \<and> receive linux_constants 100 1 None None 0 (Some 7) None unopened = Inl null_opaque_connect"
  by (simp add: send_def receive_def linux_constants_def unopened_def Let_def)

section \<open>Closing a session (C2)\<close>





lemma no_cancel_simps [simp]:
  "no_cancel []"
  "no_cancel (e # es) \<longleftrightarrow> (\<forall>r. e \<noteq> Completed r error_cancel) \<and> no_cancel es"
  "no_cancel (es @ fs) \<longleftrightarrow> no_cancel es \<and> no_cancel fs"
  by (auto simp: no_cancel_def)

lemma no_cancel_notify_complete [simp]:
  "code \<noteq> error_cancel \<Longrightarrow> no_cancel (notify_complete info code)"
  by (cases info) (simp_all add: notify_complete_def)

lemma no_cancel_write_bytes_read [simp]: "no_cancel (write_bytes_read s v)"
  by (cases "bytes_read s") (simp_all add: write_bytes_read_def)














lemma close_down_unfold:
  "close_down k h cbs s =
     (if opaque_handle s \<noteq> None then
        and_then (run_callbacks k cbs (fold (run_work k h) (outstanding_work s) (emit [Posted Uv_close] s)))
          (\<lambda>s1. Inr (free_records (s1\<lparr>opaque_handle := None, protocol := 0\<rparr>)))
      else Inr (free_records s))"
  by (cases "run_callbacks k cbs (fold (run_work k h) (outstanding_work s) (emit [Posted Uv_close] s))")
     (simp_all add: close_down_def and_then_def)





text \<open>
  The connect slot: the loop thread only ever empties it, and the posted work of a
  datagram connect empties it. A close therefore leaves no connect pending that a
  datagram session posted before.
\<close>

lemma tcp_delivery_finish_connect_slot:
  "tcp_delivery_finish n c s = Inr s' \<Longrightarrow> connect_done_info s' = connect_done_info s"
  by (auto simp: tcp_delivery_finish_def Let_def split: if_splits)

lemma handle_tcp_delivery_connect_slot:
  "handle_tcp_delivery k n buf s = Inr s' \<Longrightarrow> connect_done_info s' = connect_done_info s"
  by (auto simp: handle_tcp_delivery_def Let_def ring_pop_def split: if_splits option.splits
        dest!: tcp_delivery_finish_connect_slot)

lemma handle_udp_delivery_connect_slot:
  "handle_udp_delivery k n addr s = Inr s' \<Longrightarrow> connect_done_info s' = connect_done_info s"
  by (auto simp: handle_udp_delivery_def Let_def split: if_splits option.splits)


lemma complete_connect_clears: "connect_done_info (complete_connect_done_info k err s) = None"
  by (simp add: complete_connect_done_info_def handle_connect_done_error_code_def Let_def)

lemma complete_send_connect_slot:
  "connect_done_info (complete_send_done_info status s) = connect_done_info s"
  by (simp add: complete_send_done_info_def Let_def)

lemma run_work_connect_slot:
  "connect_done_info (run_work k h c s) = None \<or> 
   (connect_done_info (run_work k h c s) = connect_done_info s \<and> (\<forall>a. c \<noteq> Uv_udp_connect a))"
  by (cases c) (simp_all add: run_work_def complete_connect_clears)

lemma fold_run_work_keeps_empty:
  "connect_done_info s = None \<Longrightarrow> connect_done_info (fold (run_work k h) ws s) = None"
proof (induction ws arbitrary: s)
  case Nil
  then show ?case by simp
next
  case (Cons w ws)
  from run_work_connect_slot [of k h w s] Cons.prems
  have "connect_done_info (run_work k h w s) = None" by auto
  then show ?case by (simp add: Cons.IH)
qed

lemma fold_run_work_completes_udp_connect:
  "Uv_udp_connect a \<in> set ws \<Longrightarrow> connect_done_info (fold (run_work k h) ws s) = None"
proof (induction ws arbitrary: s)
  case Nil
  then show ?case by simp
next
  case (Cons w ws)
  show ?case
  proof (cases "w = Uv_udp_connect a")
    case True
    then have "connect_done_info (run_work k h w s) = None"
      by (simp add: run_work_def complete_connect_clears)
    then show ?thesis by (simp add: fold_run_work_keeps_empty)
  next
    case False
    with Cons.prems have "Uv_udp_connect a \<in> set ws" by simp
    then show ?thesis by (simp add: Cons.IH)
  qed
qed

lemma on_loop_event_keeps_empty:
  assumes "on_loop_event k e s = Inr s'" and "connect_done_info s = None"
  shows "connect_done_info s' = None"
proof (cases e)
  case (Connect_cb err)
  with assms show ?thesis by (auto simp: on_loop_event_def complete_connect_clears)
next
  case (Send_cb status)
  with assms show ?thesis by (auto simp: on_loop_event_def complete_send_connect_slot)
next
  case (Udp_recv_cb n a buf)
  with assms show ?thesis
    by (auto simp: on_loop_event_def dest!: handle_udp_delivery_connect_slot)
next
  case (Read_cb n buf)
  with assms show ?thesis
    by (auto simp: on_loop_event_def dest!: handle_tcp_delivery_connect_slot)
qed

lemma run_callbacks_keeps_empty:
  "run_callbacks k es s = Inr s' \<Longrightarrow> connect_done_info s = None \<Longrightarrow> connect_done_info s' = None"
proof (induction es arbitrary: s)
  case Nil
  then show ?case by simp
next
  case (Cons e es)
  then obtain t where t: "on_loop_event k e s = Inr t" "run_callbacks k es t = Inr s'"
    by (auto simp: and_then_Inr)
  from t(1) Cons.prems(2) have "connect_done_info t = None" by (rule on_loop_event_keeps_empty)
  with t(2) show ?case by (rule Cons.IH)
qed

lemma free_records_connect_slot: "connect_done_info (free_records s) = connect_done_info s"
  by (simp add: free_records_def Let_def)

lemma close_down_completes_posted_udp_connect:
  assumes "close_down k h cbs s = Inr s'" and "opaque_handle s \<noteq> None"
    and "Uv_udp_connect a \<in> set (outstanding_work s)"
  shows "connect_done_info s' = None"
proof -
  from assms(1,2) obtain s1 where
    s1: "run_callbacks k cbs (fold (run_work k h) (outstanding_work s) (emit [Posted Uv_close] s)) = Inr s1"
    and s': "s' = free_records (s1\<lparr>opaque_handle := None, protocol := 0\<rparr>)"
    by (auto simp: close_down_unfold and_then_Inr)
  have "connect_done_info (fold (run_work k h) (outstanding_work s) (emit [Posted Uv_close] s)) = None"
    using assms(3) by (rule fold_run_work_completes_udp_connect)
  with s1 have "connect_done_info s1 = None" by (rule run_callbacks_keeps_empty)
  then show ?thesis by (simp add: s' free_records_connect_slot)
qed

lemma connect_posts_udp_connect:
  assumes "opaque_handle s \<noteq> None" "connect_done_info s = None" "protocol s = INET_UDP_PROTOCOL_ID k"
  shows "Uv_udp_connect (GUEST_TO_BSD_ADDR k addr) \<in> set (outstanding_work (connect k addr info s))"
proof -
  have p: "\<And>es q c. \<not> is_round_trip c \<Longrightarrow> c \<in> set (posted_since (es @ [Posted c]) q)"
  proof -
    fix es q c
    assume c: "\<not> is_round_trip c"
    show "c \<in> set (posted_since (es @ [Posted c]) q)"
      using c by (induction es q rule: posted_since.induct) simp_all
  qed
  have "trace (connect k addr info s) = trace s @ [Posted (Uv_udp_connect (GUEST_TO_BSD_ADDR k addr))]"
    using assms by (auto simp: connect_def Let_def)
  then show ?thesis
    by (simp add: outstanding_work_def p)
qed

lemma close_after_udp_connect:
  assumes "opaque_handle s \<noteq> None" "connect_done_info s = None" "protocol s = INET_UDP_PROTOCOL_ID k"
    and "close_down k h cbs (connect k addr info s) = Inr s'"
  shows "connect_done_info s' = None"
proof -
  have "opaque_handle (connect k addr info s) \<noteq> None"
    using assms(1-3) by (auto simp: connect_def Let_def)
  with assms(4) show ?thesis
    using connect_posts_udp_connect [OF assms(1-3), of addr info]
    by (rule close_down_completes_posted_udp_connect)
qed





section \<open>An open whose native initialisation fails (C3)\<close>

lemma open_socket_native_failure:
  "legal_pair k protocol_id sock_type \<Longrightarrow> opaque_handle s = None \<Longrightarrow> init_result < 0 \<Longrightarrow>
   \<not> fst (open_socket k family_id protocol_id sock_type init_result s)
   \<and> opaque_handle (snd (open_socket k family_id protocol_id sock_type init_result s)) \<noteq> None
   \<and> protocol (snd (open_socket k family_id protocol_id sock_type init_result s)) = protocol s"
  by (simp add: open_socket_def legal_pair_guard Let_def emit_def)

lemma open_socket_already_open:
  "opaque_handle s \<noteq> None \<Longrightarrow> open_socket k family_id protocol_id sock_type init_result s = (False, s)"
  by (simp add: open_socket_def)

text \<open>
  C3: an open that fails in the native initialisation leaves the session unopened and can
  be retried. Evaluated on the session that was never opened, with a stream socket over
  TCP and an initialisation that returns \<open>-1\<close>: the open returns false and the handle
  stays stored, and the same open with an initialisation that returns \<open>0\<close> returns false
  as well.
\<close>

theorem open_native_failure_keeps_handle:
  "fst (open_socket linux_constants 0x0800 0x06 socket_type_stream (- 1) unopened) = False
   \<and> opaque_handle (snd (open_socket linux_constants 0x0800 0x06 socket_type_stream (- 1) unopened))
       = Some uv_tcp_t
   \<and> fst (open_socket linux_constants 0x0800 0x06 socket_type_stream 0
        (snd (open_socket linux_constants 0x0800 0x06 socket_type_stream (- 1) unopened))) = False"
  by (simp add: open_socket_def linux_constants_def unopened_def emit_def Let_def)

section \<open>Stream receive and the accumulator (C4)\<close>

text \<open>
  The two runs that the claim names. A 10-byte receive that waits for the full count is
  armed, stays pending after chunks of 3 and 4 bytes, and is completed by the chunk of 5
  bytes with 10 bytes, 2 bytes staying in the accumulator. With take-available-only the
  chunk of 3 bytes completes it with 3 bytes.
\<close>

lemma stream_receive_wait_for_full_scenario:
  "receive linux_constants 500 10 (Some 600) None 0 (Some 4) None open_tcp
     = Inr (open_tcp\<lparr>bytes_read := Some 600, read_dest := 500, recv_size := 10,
              recv_done_info := Some 4, trace := [Posted Uv_read_start]\<rparr>)"
  "and_then (receive linux_constants 500 10 (Some 600) None 0 (Some 4) None open_tcp)
     (handle_tcp_delivery linux_constants 3 [1, 2, 3])
     = Inr (open_tcp\<lparr>bytes_read := Some 600, read_dest := 500, recv_size := 10,
              recv_done_info := Some 4, stream_data_buffer := Some [1, 2, 3],
              trace := [Posted Uv_read_start]\<rparr>)"
  "and_then (and_then (receive linux_constants 500 10 (Some 600) None 0 (Some 4) None open_tcp)
     (handle_tcp_delivery linux_constants 3 [1, 2, 3]))
     (handle_tcp_delivery linux_constants 4 [4, 5, 6, 7])
     = Inr (open_tcp\<lparr>bytes_read := Some 600, read_dest := 500, recv_size := 10,
              recv_done_info := Some 4, stream_data_buffer := Some [1, 2, 3, 4, 5, 6, 7],
              trace := [Posted Uv_read_start]\<rparr>)"
  "and_then (and_then (and_then (receive linux_constants 500 10 (Some 600) None 0 (Some 4) None open_tcp)
     (handle_tcp_delivery linux_constants 3 [1, 2, 3]))
     (handle_tcp_delivery linux_constants 4 [4, 5, 6, 7]))
     (handle_tcp_delivery linux_constants 5 [8, 9, 10, 11, 12])
     = Inr two_left"
  by (simp_all add: receive_def handle_tcp_delivery_def tcp_delivery_finish_def two_left_def eval_defs)

lemma stream_receive_take_available_scenario:
  "and_then (receive linux_constants 500 10 (Some 600) None 0x1000 (Some 4) None open_tcp)
     (handle_tcp_delivery linux_constants 3 [1, 2, 3])
     = Inr (open_tcp\<lparr>bytes_read := Some 600, read_dest := 500, recv_size := 10,
              take_available_only := True,
              trace := [Posted Uv_read_start, Memcpy 500 [1, 2, 3], Write_u32 600 3,
                        Native Uv_read_stop, Lock, Completed 4 error_none, Unlock]\<rparr>)"
  by (simp add: receive_def handle_tcp_delivery_def tcp_delivery_finish_def eval_defs)

text \<open>
  C4: a stream receive is served at once when the accumulator holds at least the
  requested count, and is armed otherwise. The source compares the other way round
  (\<^verbatim>\<open>data_size >= stream_data_buffer_->size()\<close>). Evaluated on the session that the
  first run leaves, with 2 bytes in the accumulator: a receive of 1 byte that waits for
  the full count is neither served nor armed, it only becomes pending; a receive of 10
  bytes that waits for the full count is completed at once with the 2 bytes.
\<close>

theorem stream_receive_accumulator_comparison:
  "receive linux_constants 500 1 (Some 600) None 0 (Some 5) None two_left
     = Inr (two_left\<lparr>recv_size := 1, recv_done_info := Some 5\<rparr>)
   \<and> receive linux_constants 500 10 (Some 600) None 0 (Some 5) None two_left
     = Inr (two_left\<lparr>stream_data_buffer := Some [],
              trace := trace two_left @ [Write_u32 600 2, Memcpy 500 [11, 12], Completed 5 error_none]\<rparr>)"
  by (simp add: receive_def two_left_def eval_defs)

section \<open>Datagram receive with a filter address (C5)\<close>

text \<open>
  What the handler does once \<^verbatim>\<open>is_same_address\<close> has decided: a sender that it rejects
  leaves the session as it is; a sender that it accepts stops the delivery and completes
  the pending receive, the count being the smaller of the delivered and the requested
  length.
\<close>

lemma udp_delivery_mismatch:
  "family (listen_addr s) \<noteq> INVALID_FAMILY_ID k \<Longrightarrow> \<not> is_same_address k (listen_addr s) a \<Longrightarrow>
   handle_udp_delivery k n (Some a) s = Inr s"
  by (simp add: handle_udp_delivery_def Let_def)

lemma udp_delivery_match:
  "family (listen_addr s) = INVALID_FAMILY_ID k \<or> is_same_address k (listen_addr s) a \<Longrightarrow>
   recv_done_info s = Some r \<Longrightarrow> 0 \<le> n \<Longrightarrow> UV_EOF k < 0 \<Longrightarrow>
   handle_udp_delivery k n (Some a) s
     = Inr (s\<lparr>recv_done_info := None,
              trace := trace s @ [Native Uv_udp_recv_stop,
                Memcpy (read_dest s) (take (min (nat n) (recv_size s)) (temp_buffer s))]
                @ write_bytes_read s (of_nat (min (nat n) (recv_size s)))
                @ [Lock, Completed r error_none, Unlock]\<rparr>)"
  by (auto simp: handle_udp_delivery_def Let_def emit_def notify_complete_def write_bytes_read_def)

text \<open>
  On a little-endian host \<^verbatim>\<open>is_same_address\<close> rejects the native form that
  \<^verbatim>\<open>GUEST_TO_BSD_ADDR\<close> gives the filter address itself: the macro stores the port in
  network byte order, the comparison takes it in host byte order.
\<close>

lemma filter_rejects_its_own_address:
  "is_same_address linux_constants guest_10_0_0_1_port_80
     (GUEST_TO_BSD_ADDR linux_constants guest_10_0_0_1_port_80) = False"
  by (simp add: is_same_address_def GUEST_TO_BSD_ADDR_def guest_10_0_0_1_port_80_def htons_def
        linux_constants_def)

text \<open>
  C5: the first datagram whose sender matches the filter stops the delivery and completes
  the receive. Evaluated on a little-endian host: a receive of up to 100 bytes is armed
  with the filter 10.0.0.1, port 80, and a datagram of 4 bytes arrives from 10.0.0.1,
  port 80. The handler discards it: the session is unchanged, the receive still pending.
\<close>

theorem datagram_from_filter_address_discarded:
  "receive linux_constants 500 100 (Some 600) (Some guest_10_0_0_1_port_80) 0 (Some 3) None open_udp
     = Inr armed_filtered
   \<and> handle_udp_delivery linux_constants 4
        (Some (GUEST_TO_BSD_ADDR linux_constants guest_10_0_0_1_port_80))
        (armed_filtered\<lparr>temp_buffer := [1, 2, 3, 4]\<rparr>)
     = Inr (armed_filtered\<lparr>temp_buffer := [1, 2, 3, 4]\<rparr>)"
  by (simp add: receive_def handle_udp_delivery_def armed_filtered_def is_same_address_def
        GUEST_TO_BSD_ADDR_def guest_10_0_0_1_port_80_def htons_def eval_defs)

section \<open>A second operation of a kind that is pending (C6)\<close>

text \<open>
  The second of two connects in a row: the first one becomes pending exactly if the
  session has a native handle, and then the second one is answered with \<open>error_in_use\<close>
  and leaves the session that the first one made as it is.
\<close>

lemma second_connect_after_first:
  assumes "opaque_handle s \<noteq> None" and "connect_done_info s = None"
  shows "connect_done_info (connect k addr (Some r) s) = Some r
         \<and> connect k addr' info' (connect k addr (Some r) s)
             = (connect k addr (Some r) s)
                 \<lparr>trace := trace (connect k addr (Some r) s) @ notify_complete info' error_in_use\<rparr>"
proof -
  have h: "opaque_handle (connect k addr (Some r) s) \<noteq> None"
    and p: "connect_done_info (connect k addr (Some r) s) = Some r"
    using assms by (auto simp: connect_def Let_def)
  show ?thesis
    using h p by (auto simp: connect_def [of k addr' info'] emit_def)
qed



section \<open>Bind (C7)\<close>

text \<open>
  C7, as amended. On a session without a native handle bind completes the notification
  with \<open>error_not_ready\<close> and does nothing else. Otherwise the calling thread calls the
  host bind itself, nothing is posted to the loop thread, and the notification is
  completed with \<open>error_none\<close> whatever the host bind returned.
\<close>

theorem bind_reports_none:
  "(opaque_handle s = None \<longrightarrow>
      bind k addr info bind_result s = s\<lparr>trace := trace s @ notify_complete info error_not_ready\<rparr>)
   \<and> (opaque_handle s \<noteq> None \<longrightarrow>
        bind k addr info bind_result s
          = s\<lparr>trace := trace s
                 @ [Native (if protocol s = INET_UDP_PROTOCOL_ID k
                            then Uv_udp_bind (GUEST_TO_BSD_ADDR k addr)
                            else Uv_tcp_bind (GUEST_TO_BSD_ADDR k addr))]
                 @ notify_complete info error_none\<rparr>)"
  by (simp add: bind_def emit_def Let_def)

theorem bind_reports_none_witness:
  "opaque_handle unopened = None \<and> opaque_handle open_tcp \<noteq> None
   \<and> trace (bind linux_constants guest_10_0_0_1_port_80 (Some 5) 0 unopened) = [Completed 5 error_not_ready]
   \<and> trace (bind linux_constants guest_10_0_0_1_port_80 (Some 5) (- 98) open_tcp)
       = [Native (Uv_tcp_bind (GUEST_TO_BSD_ADDR linux_constants guest_10_0_0_1_port_80)),
          Completed 5 error_none]"
proof -
  have p: "opaque_handle unopened = None" "opaque_handle open_tcp \<noteq> None"
    "trace unopened = []" "trace open_tcp = []"
    "protocol open_tcp \<noteq> INET_UDP_PROTOCOL_ID linux_constants"
    by (simp_all add: open_tcp_def unopened_def linux_constants_def)
  from bind_reports_none [where s = unopened and k = linux_constants
      and addr = guest_10_0_0_1_port_80 and info = "Some 5" and bind_result = 0]
    bind_reports_none [where s = open_tcp and k = linux_constants
      and addr = guest_10_0_0_1_port_80 and info = "Some 5" and bind_result = "- 98"] p
  show ?thesis by (simp add: notify_complete_def)
qed

text \<open>
  C7 as stated fails: a bind on the open datagram session, with a host bind that returns
  the error of an address in use, leaves exactly two entries in the trace, the host bind
  called by the calling thread and the completion with \<open>error_none\<close>; nothing is posted.
\<close>

theorem bind_not_posted_counterexample:
  "trace (bind linux_constants guest_10_0_0_1_port_80 (Some 5) (- 98) open_udp)
     = [Native (Uv_udp_bind \<lparr> sa_family = 2, sin_port = 0x5000, sin_addr = [10, 0, 0, 1],
                              sin6_flowinfo = 0, sin6_scope_id = 0 \<rparr>),
        Completed 5 error_none]"
  by (simp add: bind_def emit_def Let_def open_udp_def unopened_def linux_constants_def
        notify_complete_def GUEST_TO_BSD_ADDR_def guest_10_0_0_1_port_80_def htons_def)

section \<open>The mapping of native connect errors (C8)\<close>

lemma completes_connect_with_code:
  assumes "e \<noteq> 0"
    and "guest_error_code =
           (if e = UV_EACCES k then error_permission_denied
            else if e = UV_EADDRINUSE k then error_in_use
            else if e = UV_EADDRNOTAVAIL k then error_argument
            else if e = UV_EAFNOSUPPORT k then error_not_supported
            else if e = UV_ECONNREFUSED k then error_server_busy
            else if e = UV_ENOTSUP k then error_not_supported
            else if e = UV_ETIMEDOUT k then error_timed_out
            else error_general)"
  shows "completes_connect_with s guest_error_code (handle_connect_done_error_code k e s)"
proof (cases "connect_done_info s")
  case None
  then show ?thesis
    by (simp add: completes_connect_with_def handle_connect_done_error_code_def notify_complete_def)
next
  case (Some r)
  then show ?thesis
    unfolding completes_connect_with_def handle_connect_done_error_code_def Let_def
      assms(2) [symmetric]
    using assms(1) by (simp add: emit_def)
qed

lemma completes_connect_with_zero:
  "completes_connect_with s error_none (handle_connect_done_error_code k 0 s)"
  by (simp add: completes_connect_with_def handle_connect_done_error_code_def
        emit_def notify_complete_def)

text \<open>
  C8, as amended. A native connect completion completes the pending connect with a code
  fixed by the native code: zero gives \<open>error_none\<close>, access denied
  \<open>error_permission_denied\<close>, address in use \<open>error_in_use\<close> (the code that also
  reports an operation already pending; the source has no separate code for an address in
  use), address not available \<open>error_argument\<close>, family unsupported
  \<open>error_not_supported\<close>, connection refused \<open>error_server_busy\<close>, operation
  unsupported \<open>error_not_supported\<close>, timed out \<open>error_timed_out\<close>, and every other
  native code \<open>error_general\<close>.
\<close>

theorem connect_error_code_mapping:
  assumes "uv_labels_distinct k"
  shows "completes_connect_with s error_none (handle_connect_done_error_code k 0 s)
    \<and> completes_connect_with s error_permission_denied (handle_connect_done_error_code k (UV_EACCES k) s)
    \<and> completes_connect_with s error_in_use (handle_connect_done_error_code k (UV_EADDRINUSE k) s)
    \<and> completes_connect_with s error_argument (handle_connect_done_error_code k (UV_EADDRNOTAVAIL k) s)
    \<and> completes_connect_with s error_not_supported (handle_connect_done_error_code k (UV_EAFNOSUPPORT k) s)
    \<and> completes_connect_with s error_server_busy (handle_connect_done_error_code k (UV_ECONNREFUSED k) s)
    \<and> completes_connect_with s error_not_supported (handle_connect_done_error_code k (UV_ENOTSUP k) s)
    \<and> completes_connect_with s error_timed_out (handle_connect_done_error_code k (UV_ETIMEDOUT k) s)
    \<and> (e \<notin> {0, UV_EACCES k, UV_EADDRINUSE k, UV_EADDRNOTAVAIL k, UV_EAFNOSUPPORT k,
              UV_ECONNREFUSED k, UV_ENOTSUP k, UV_ETIMEDOUT k}
        \<longrightarrow> completes_connect_with s error_general (handle_connect_done_error_code k e s))"
proof -
  have d: "distinct [0, UV_EACCES k, UV_EADDRINUSE k, UV_EADDRNOTAVAIL k,
     UV_EAFNOSUPPORT k, UV_ECONNREFUSED k, UV_ENOTSUP k, UV_ETIMEDOUT k]"
    using assms by (simp only: uv_labels_distinct_def)
  have c1: "completes_connect_with s error_permission_denied (handle_connect_done_error_code k (UV_EACCES k) s)"
    by (rule completes_connect_with_code) (use d in auto)
  have c2: "completes_connect_with s error_in_use (handle_connect_done_error_code k (UV_EADDRINUSE k) s)"
    by (rule completes_connect_with_code) (use d in auto)
  have c3: "completes_connect_with s error_argument (handle_connect_done_error_code k (UV_EADDRNOTAVAIL k) s)"
    by (rule completes_connect_with_code) (use d in auto)
  have c4: "completes_connect_with s error_not_supported (handle_connect_done_error_code k (UV_EAFNOSUPPORT k) s)"
    by (rule completes_connect_with_code) (use d in auto)
  have c5: "completes_connect_with s error_server_busy (handle_connect_done_error_code k (UV_ECONNREFUSED k) s)"
    by (rule completes_connect_with_code) (use d in auto)
  have c6: "completes_connect_with s error_not_supported (handle_connect_done_error_code k (UV_ENOTSUP k) s)"
    by (rule completes_connect_with_code) (use d in auto)
  have c7: "completes_connect_with s error_timed_out (handle_connect_done_error_code k (UV_ETIMEDOUT k) s)"
    by (rule completes_connect_with_code) (use d in auto)
  have c8: "completes_connect_with s error_general (handle_connect_done_error_code k e s)"
    if "e \<notin> {0, UV_EACCES k, UV_EADDRINUSE k, UV_EADDRNOTAVAIL k, UV_EAFNOSUPPORT k,
              UV_ECONNREFUSED k, UV_ENOTSUP k, UV_ETIMEDOUT k}"
    by (rule completes_connect_with_code) (use that in simp_all)
  from completes_connect_with_zero c1 c2 c3 c4 c5 c6 c7 c8 show ?thesis by blast
qed

theorem connect_error_code_mapping_witness:
  "uv_labels_distinct linux_constants
   \<and> completes_connect_with (open_tcp\<lparr>connect_done_info := Some 1\<rparr>) error_server_busy
        (handle_connect_done_error_code linux_constants (- 111) (open_tcp\<lparr>connect_done_info := Some 1\<rparr>))
   \<and> completes_connect_with (open_tcp\<lparr>connect_done_info := Some 1\<rparr>) error_general
        (handle_connect_done_error_code linux_constants (- 32) (open_tcp\<lparr>connect_done_info := Some 1\<rparr>))"
proof -
  have d: "uv_labels_distinct linux_constants"
    by (simp add: uv_labels_distinct_def linux_constants_def)
  have e: "(- 32 :: int) \<notin> {0, UV_EACCES linux_constants, UV_EADDRINUSE linux_constants,
      UV_EADDRNOTAVAIL linux_constants, UV_EAFNOSUPPORT linux_constants,
      UV_ECONNREFUSED linux_constants, UV_ENOTSUP linux_constants, UV_ETIMEDOUT linux_constants}"
    by (simp add: linux_constants_def)
  have r: "UV_ECONNREFUSED linux_constants = - 111"
    by (simp add: linux_constants_def)
  from connect_error_code_mapping [OF d, of "open_tcp\<lparr>connect_done_info := Some 1\<rparr>" "- 32"] d e r
  show ?thesis by simp
qed

text \<open>
  C8 as stated fails: for the native code of an address in use the pending connect is
  completed with \<open>error_in_use\<close>, which is the taxonomy's \<open>InUse\<close> and not its
  \<open>AddressInUse\<close>.
\<close>

theorem connect_address_in_use_counterexample:
  "trace (handle_connect_done_error_code linux_constants (UV_EADDRINUSE linux_constants)
            (open_tcp\<lparr>connect_done_info := Some 1\<rparr>)) = [Completed 1 error_in_use]
   \<and> taxonomy error_in_use = RC_InUse \<and> taxonomy error_in_use \<noteq> RC_AddressInUse"
  by (simp add: handle_connect_done_error_code_def linux_constants_def open_tcp_def unopened_def
        emit_def notify_complete_def)

section \<open>A delivery with no receive pending (C9)\<close>

lemma udp_delivery_no_pending:
  "recv_done_info s = None \<Longrightarrow> family (listen_addr s) = INVALID_FAMILY_ID k \<Longrightarrow>
   handle_udp_delivery k bytes_read_arg addr s = Inl null_kern"
  by (simp add: handle_udp_delivery_def Let_def)

lemma tcp_delivery_finish_no_pending:
  "recv_done_info s = None \<Longrightarrow> tcp_delivery_finish n c s = Inl (if opaque_connect s then null_kern else null_opaque_connect)"
  by (simp add: tcp_delivery_finish_def)

lemma tcp_delivery_no_pending:
  assumes "recv_done_info s = None"
  shows "handle_tcp_delivery k bytes_read_arg buf s =
     (if bytes_read_arg = UV_EOF k \<or> bytes_read_arg < 0
         \<or> (take_available_only s \<and> recv_size s > nat bytes_read_arg)
      then Inl (if opaque_connect s then null_kern else null_opaque_connect)
      else
        (case ring_push (case stream_data_buffer s of None \<Rightarrow> [] | Some b \<Rightarrow> b)
                (take (nat bytes_read_arg) buf) of
           None \<Rightarrow> Inl accumulator_overflow
         | Some rb1 \<Rightarrow>
             if take_available_only s \<or> recv_size s \<le> length rb1
             then Inl (if opaque_connect s then null_kern else null_opaque_connect)
             else Inr (s\<lparr>stream_data_buffer := Some rb1\<rparr>)))"
  using assms
  by (simp add: handle_tcp_delivery_def Let_def ring_pop_def tcp_delivery_finish_no_pending
        split: option.split)

lemma cancel_receive_clears: "recv_done_info (cancel_receive k s) = None"
  by (simp add: cancel_receive_def emit_def Let_def)

text \<open>
  The race of a delivery with a cancel: once \<^verbatim>\<open>cancel_receive\<close> has completed the
  receive, a datagram that the loop thread still delivers runs into the null pointer.
\<close>

lemma udp_delivery_after_cancel_receive:
  assumes "family (listen_addr s) = INVALID_FAMILY_ID k"
  shows "handle_udp_delivery k bytes_read_arg addr (cancel_receive k s) = Inl null_kern"
proof -
  have "listen_addr (cancel_receive k s) = listen_addr s"
    by (simp add: cancel_receive_def emit_def Let_def)
  with assms show ?thesis
    by (simp add: udp_delivery_no_pending cancel_receive_clears)
qed

text \<open>
  C9: a delivery handler that runs with no receive pending completes nothing and never
  dereferences the kernel pointer. Evaluated with no receive pending: a datagram of one
  byte on the open datagram session, a chunk of one byte on the open stream session, and
  the end of the stream on the open stream session each reach \<^verbatim>\<open>kern->lock()\<close> with a
  null \<^verbatim>\<open>kern\<close>.
\<close>

theorem delivery_without_pending_receive_faults:
  "handle_udp_delivery linux_constants 1 (Some (GUEST_TO_BSD_ADDR linux_constants guest_10_0_0_1_port_80))
      (open_udp\<lparr>temp_buffer := [0x41]\<rparr>) = Inl null_kern
   \<and> handle_tcp_delivery linux_constants 1 [0x41] open_tcp = Inl null_kern
   \<and> handle_tcp_delivery linux_constants (- 4095) [] open_tcp = Inl null_kern"
  by (simp add: handle_udp_delivery_def handle_tcp_delivery_def tcp_delivery_finish_def
        open_udp_def open_tcp_def unopened_def no_address_def linux_constants_def Let_def
        ring_push_def ring_pop_def ring_capacity_def emit_def)

section \<open>Starting the enumeration of the network interfaces (C10)\<close>

lemma retry_success: "host i = ERROR_SUCCESS \<Longrightarrow> get_adapters_retry host i = Some True"
  by (subst get_adapters_retry.simps) simp

lemma retry_overflow:
  "host i = ERROR_BUFFER_OVERFLOW \<Longrightarrow> get_adapters_retry host i = get_adapters_retry host (Suc i)"
  by (subst get_adapters_retry.simps) (simp add: ERROR_SUCCESS_def ERROR_BUFFER_OVERFLOW_def)

lemma retry_failure:
  "host i \<noteq> ERROR_SUCCESS \<Longrightarrow> host i \<noteq> ERROR_BUFFER_OVERFLOW \<Longrightarrow> get_adapters_retry host i = Some False"
  by (subst get_adapters_retry.simps) simp

lemma retry_stop:
  "host i \<noteq> ERROR_BUFFER_OVERFLOW \<Longrightarrow> get_adapters_retry host i = Some (host i = ERROR_SUCCESS)"
  by (cases "host i = ERROR_SUCCESS") (simp_all add: retry_success retry_failure)

lemma retry_skip:
  "\<forall>j. i \<le> j \<and> j < i + d \<longrightarrow> host j = ERROR_BUFFER_OVERFLOW \<Longrightarrow>
   get_adapters_retry host i = get_adapters_retry host (i + d)"
proof (induction d arbitrary: i)
  case 0
  then show ?case by simp
next
  case (Suc d)
  have "host i = ERROR_BUFFER_OVERFLOW" using Suc.prems by simp
  then have "get_adapters_retry host i = get_adapters_retry host (Suc i)"
    by (rule retry_overflow)
  also have "\<dots> = get_adapters_retry host (Suc i + d)"
    by (rule Suc.IH) (use Suc.prems in simp)
  finally show ?case by simp
qed

lemma retry_returns:
  assumes "host n \<noteq> ERROR_BUFFER_OVERFLOW"
  shows "get_adapters_retry host 0
           = Some (host (LEAST m. host m \<noteq> ERROR_BUFFER_OVERFLOW) = ERROR_SUCCESS)"
proof -
  let ?m = "LEAST m. host m \<noteq> ERROR_BUFFER_OVERFLOW"
  have stop: "host ?m \<noteq> ERROR_BUFFER_OVERFLOW"
    using assms by (rule LeastI)
  have "\<forall>j. 0 \<le> j \<and> j < 0 + ?m \<longrightarrow> host j = ERROR_BUFFER_OVERFLOW"
    using not_less_Least by auto
  then have "get_adapters_retry host 0 = get_adapters_retry host (0 + ?m)"
    by (rule retry_skip)
  with stop show ?thesis by (simp add: retry_stop)
qed

lemma retry_diverges:
  assumes "\<forall>m. host m = ERROR_BUFFER_OVERFLOW"
  shows "get_adapters_retry host i = None"
proof (rule ccontr)
  assume "get_adapters_retry host i \<noteq> None"
  then obtain y where y: "get_adapters_retry host i = Some y" by auto
  have "\<exists>m. host m \<noteq> ERROR_BUFFER_OVERFLOW"
  proof (rule get_adapters_retry.raw_induct
      [where P = "\<lambda>h i y. \<exists>m. h m \<noteq> ERROR_BUFFER_OVERFLOW", OF _ y])
    fix retry :: "(nat \<Rightarrow> 32 word) \<Rightarrow> nat \<Rightarrow> bool option" and h i r
    assume ih: "\<And>h' i' r'. retry h' i' = Some r' \<Longrightarrow> \<exists>m. h' m \<noteq> ERROR_BUFFER_OVERFLOW"
      and step: "(let result = h i
                  in if result = ERROR_SUCCESS then Some True
                     else if result = ERROR_BUFFER_OVERFLOW then retry h (Suc i)
                     else Some False) = Some r"
    show "\<exists>m. h m \<noteq> ERROR_BUFFER_OVERFLOW"
    proof (cases "h i = ERROR_BUFFER_OVERFLOW")
      case True
      with step have "retry h (Suc i) = Some r"
        by (simp add: ERROR_SUCCESS_def ERROR_BUFFER_OVERFLOW_def)
      then show ?thesis by (rule ih)
    next
      case False
      then show ?thesis by blast
    qed
  qed
  with assms show False by simp
qed

text \<open>
  C10, as amended. In the Windows build the member function returns whenever some call of
  the host query answers with a result other than a buffer overflow, and it returns true
  exactly if the first such result is success; when every call answers with a buffer
  overflow it does not return. In the other builds it always returns, true exactly if
  the host query did not fail.
\<close>

theorem start_enumerate_returns:
  "(host n \<noteq> ERROR_BUFFER_OVERFLOW \<longrightarrow>
      (\<exists>s'. start_enumerate_network_interfaces_win32 host adapters s
              = Some (host (LEAST m. host m \<noteq> ERROR_BUFFER_OVERFLOW) = ERROR_SUCCESS, s')))
   \<and> ((\<forall>m. host m = ERROR_BUFFER_OVERFLOW) \<longrightarrow>
        start_enumerate_network_interfaces_win32 host adapters s = None)
   \<and> (\<exists>s'. start_enumerate_network_interfaces_posix result ifaddrs s = Some (0 \<le> result, s'))"
proof (intro conjI impI)
  assume "host n \<noteq> ERROR_BUFFER_OVERFLOW"
  then show "\<exists>s'. start_enumerate_network_interfaces_win32 host adapters s
              = Some (host (LEAST m. host m \<noteq> ERROR_BUFFER_OVERFLOW) = ERROR_SUCCESS, s')"
    by (simp add: start_enumerate_network_interfaces_win32_def retry_returns split: bool.split)
next
  assume "\<forall>m. host m = ERROR_BUFFER_OVERFLOW"
  then show "start_enumerate_network_interfaces_win32 host adapters s = None"
    by (simp add: start_enumerate_network_interfaces_win32_def retry_diverges)
next
  show "\<exists>s'. start_enumerate_network_interfaces_posix result ifaddrs s = Some (0 \<le> result, s')"
    by (simp add: start_enumerate_network_interfaces_posix_def Let_def)
qed

theorem start_enumerate_returns_witness:
  "(\<lambda>i. if i < 2 then ERROR_BUFFER_OVERFLOW else ERROR_SUCCESS) (2::nat) \<noteq> ERROR_BUFFER_OVERFLOW
   \<and> (\<exists>s'. start_enumerate_network_interfaces_win32
              (\<lambda>i. if i < 2 then ERROR_BUFFER_OVERFLOW else ERROR_SUCCESS) [''eth0''] unopened
            = Some (True, s'))
   \<and> (\<forall>m::nat. (\<lambda>i. ERROR_BUFFER_OVERFLOW) m = ERROR_BUFFER_OVERFLOW)
   \<and> start_enumerate_network_interfaces_win32 (\<lambda>i. ERROR_BUFFER_OVERFLOW) [''eth0''] unopened = None"
proof -
  let ?host = "\<lambda>i::nat. if i < 2 then ERROR_BUFFER_OVERFLOW else ERROR_SUCCESS"
  have ne: "ERROR_SUCCESS \<noteq> ERROR_BUFFER_OVERFLOW"
    by (simp add: ERROR_SUCCESS_def ERROR_BUFFER_OVERFLOW_def)
  have h: "?host 2 \<noteq> ERROR_BUFFER_OVERFLOW" using ne by simp
  have l: "(LEAST m. ?host m \<noteq> ERROR_BUFFER_OVERFLOW) = 2"
    by (rule Least_equality) (use ne in \<open>auto split: if_splits\<close>)
  from start_enumerate_returns [where host = ?host and n = 2 and adapters = "[''eth0'']" and s = unopened]
    start_enumerate_returns [where host = "\<lambda>i. ERROR_BUFFER_OVERFLOW" and adapters = "[''eth0'']" and s = unopened]
    h l
  show ?thesis by simp
qed

text \<open>
  C10 as stated fails: with a host query that answers every call with a buffer overflow,
  the retry loop of the Windows build never exits.
\<close>

theorem enumerate_overflow_forever_counterexample:
  "start_enumerate_network_interfaces_win32 (\<lambda>i. ERROR_BUFFER_OVERFLOW) [] unopened = None"
  by (simp add: start_enumerate_network_interfaces_win32_def retry_diverges)

end
